theory Spec2Isabelle
  imports Complex_Main "HOL-Library.Monad_Syntax"
begin

section \<open>JavaScript values\<close>

text \<open>
  A JavaScript number is \<open>NaN\<close>, one of the two infinities, or a finite value. A finite
  double is represented by the rational it denotes; rounding to the nearest double and the
  sign of zero are not represented. The comparisons below are those of the language: every
  comparison with \<open>NaN\<close> is false.
\<close>

datatype jsnum = NaN | PosInf | NegInf | Fin rat

fun js_less :: "jsnum \<Rightarrow> jsnum \<Rightarrow> bool" where
  "js_less NaN y = False"
| "js_less x NaN = False"
| "js_less PosInf y = False"
| "js_less x NegInf = False"
| "js_less NegInf y = True"
| "js_less x PosInf = True"
| "js_less (Fin a) (Fin b) = (a < b)"

definition js_greater :: "jsnum \<Rightarrow> jsnum \<Rightarrow> bool" where
  "js_greater x y = js_less y x"

definition js_less_eq :: "jsnum \<Rightarrow> jsnum \<Rightarrow> bool" where
  "js_less_eq x y = (x \<noteq> NaN \<and> y \<noteq> NaN \<and> \<not> js_less y x)"

definition js_greater_eq :: "jsnum \<Rightarrow> jsnum \<Rightarrow> bool" where
  "js_greater_eq x y = js_less_eq y x"

definition isNaN :: "jsnum \<Rightarrow> bool" where
  "isNaN x = (x = NaN)"

text \<open>
  A string is a list of characters; each character stands for one code unit in the range
  U+0000 to U+00FF. The values that reach the program are those of a parsed JSON document,
  together with \<open>undefined\<close>. An object is the list of its own properties.
\<close>

datatype jsval =
    JUndefined
  | JNull
  | JBool bool
  | JNum jsnum
  | JStr string
  | JArr "jsval list"
  | JObj "(string \<times> jsval) list"

text \<open>Truthiness, as \<open>!x\<close>, \<open>x && y\<close> and \<open>x || y\<close> test it.\<close>

fun truthy :: "jsval \<Rightarrow> bool" where
  "truthy JUndefined = False"
| "truthy JNull = False"
| "truthy (JBool b) = b"
| "truthy (JNum n) = (n \<noteq> NaN \<and> n \<noteq> Fin 0)"
| "truthy (JStr s) = (s \<noteq> [])"
| "truthy (JArr xs) = True"
| "truthy (JObj kvs) = True"

definition js_or :: "jsval \<Rightarrow> jsval \<Rightarrow> jsval" where
  "js_or a b = (if truthy a then a else b)"

text \<open>
  Reading a property \<open>v.k\<close>. On \<open>null\<close> and \<open>undefined\<close> the read throws a TypeError,
  which is the result \<open>None\<close>. On an object it is the own property, or \<open>undefined\<close>. The
  property names the program reads (\<open>event\<close>, \<open>boardId\<close>, \<open>pulseId\<close>, \<open>itemId\<close>,
  \<open>columnId\<close>, \<open>columnType\<close>, \<open>value\<close>, \<open>previousValue\<close>, \<open>userId\<close>, \<open>errors\<close>,
  \<open>data\<close>) are not properties of any built-in prototype, so on a boolean, number, string
  or array the read gives \<open>undefined\<close>.
\<close>

fun get_prop :: "jsval \<Rightarrow> string \<Rightarrow> jsval option" where
  "get_prop JUndefined k = None"
| "get_prop JNull k = None"
| "get_prop (JObj kvs) k = (case map_of kvs k of None \<Rightarrow> Some JUndefined | Some v \<Rightarrow> Some v)"
| "get_prop v k = Some JUndefined"

section \<open>Strings: \<open>replace\<close>, \<open>trim\<close> and \<open>parseFloat\<close>\<close>

text \<open>White space and line terminators among the code units U+0000 to U+00FF.\<close>

definition is_space :: "char \<Rightarrow> bool" where
  "is_space c = (c \<in> {CHR 0x09, CHR 0x0A, CHR 0x0B, CHR 0x0C, CHR 0x0D, CHR 0x20, CHR 0xA0})"

definition trim_start :: "string \<Rightarrow> string" where
  "trim_start s = dropWhile is_space s"

definition trim :: "string \<Rightarrow> string" where
  "trim s = rev (dropWhile is_space (rev (dropWhile is_space s)))"

definition is_digit :: "char \<Rightarrow> bool" where
  "is_digit c = (48 \<le> (of_char c :: nat) \<and> (of_char c :: nat) \<le> 57)"

definition digit_val :: "char \<Rightarrow> nat" where
  "digit_val c = of_char c - 48"

text \<open>The value of a run of decimal digits, most significant first.\<close>

fun digits_val :: "nat \<Rightarrow> string \<Rightarrow> nat" where
  "digits_val acc [] = acc"
| "digits_val acc (c # cs) = digits_val (10 * acc + digit_val c) cs"

text \<open>
  The exponent part of a decimal literal: \<open>e\<close> or \<open>E\<close>, an optional sign and at least one
  digit. When the text does not start with a complete exponent part it is not part of the
  literal, and the exponent is 0.
\<close>

definition exponent_part :: "string \<Rightarrow> int" where
  "exponent_part s =
     (case s of
        [] \<Rightarrow> 0
      | c # r \<Rightarrow>
          if c = CHR ''e'' \<or> c = CHR ''E'' then
            (case r of
               [] \<Rightarrow> 0
             | d # r' \<Rightarrow>
                 if d = CHR ''-'' then
                   (if takeWhile is_digit r' = [] then 0
                    else - int (digits_val 0 (takeWhile is_digit r')))
                 else if d = CHR ''+'' then
                   (if takeWhile is_digit r' = [] then 0
                    else int (digits_val 0 (takeWhile is_digit r')))
                 else
                   (if takeWhile is_digit r = [] then 0
                    else int (digits_val 0 (takeWhile is_digit r))))
          else 0)"

definition pow10 :: "int \<Rightarrow> rat" where
  "pow10 e = (if 0 \<le> e then 10 ^ nat e else 1 / 10 ^ nat (- e))"

text \<open>
  An unsigned decimal literal at the start of the text: \<open>Infinity\<close>, or digits with an
  optional fraction and an optional exponent part, or a fraction that starts with the dot.
  The longest such prefix is read; when there is none the result is \<open>NaN\<close>.
\<close>

definition unsigned_literal :: "string \<Rightarrow> jsnum" where
  "unsigned_literal u =
     (if take 8 u = ''Infinity'' then PosInf
      else
        let ip = takeWhile is_digit u;
            r1 = dropWhile is_digit u;
            fp = (case r1 of [] \<Rightarrow> [] | c # r \<Rightarrow> if c = CHR ''.'' then takeWhile is_digit r else []);
            r2 = (case r1 of [] \<Rightarrow> [] | c # r \<Rightarrow> if c = CHR ''.'' then dropWhile is_digit r else r1)
        in if ip = [] \<and> fp = [] then NaN
           else Fin (of_nat (digits_val 0 (ip @ fp)) * pow10 (exponent_part r2 - int (length fp))))"

definition js_negate :: "jsnum \<Rightarrow> jsnum" where
  "js_negate x = (case x of NaN \<Rightarrow> NaN | PosInf \<Rightarrow> NegInf | NegInf \<Rightarrow> PosInf | Fin q \<Rightarrow> Fin (- q))"

text \<open>
  The built-in \<open>parseFloat\<close>: leading white space is dropped, then the longest prefix that
  is a signed decimal literal is read; the value is the exact decimal value of that prefix.
\<close>

definition parseFloat :: "string \<Rightarrow> jsnum" where
  "parseFloat s =
     (case trim_start s of
        [] \<Rightarrow> NaN
      | c # r \<Rightarrow>
          if c = CHR ''-'' then js_negate (unsigned_literal r)
          else if c = CHR ''+'' then unsigned_literal r
          else unsigned_literal (c # r))"

section \<open>Value mapper: \<open>parseFormulaValue\<close>\<close>

text \<open>\<open>value.replace(/[,$%]/g, '')\<close>: every comma, dollar sign and percent sign is removed.\<close>

definition strip_formatting :: "string \<Rightarrow> string" where
  "strip_formatting s = filter (\<lambda>c. c \<noteq> CHR '','' \<and> c \<noteq> CHR ''$'' \<and> c \<noteq> CHR ''%'') s"

text \<open>The result \<open>null\<close> is \<open>None\<close>; a number is \<open>Some\<close> of it.\<close>

fun parseFormulaValue :: "jsval \<Rightarrow> jsnum option" where
  "parseFormulaValue JNull = None"
| "parseFormulaValue JUndefined = None"
| "parseFormulaValue (JStr s) =
     (let cleaned = trim (strip_formatting s);
          parsed = parseFloat cleaned
      in if isNaN parsed then None else Some parsed)"
| "parseFormulaValue (JNum n) = (if isNaN n then None else Some n)"
| "parseFormulaValue v = None"

section \<open>Configuration\<close>

text \<open>
  \<open>config.js\<close>. A status rule is a resolved status (label, index, color) together with
  its condition, a closure over the number. The logging flags only switch console output,
  which is not represented.
\<close>

record resolved_status =
  label :: string
  index :: nat
  color :: string

record status_rule = resolved_status +
  condition :: "jsnum \<Rightarrow> bool"

record rate_limit =
  maxRetries :: nat
  initialDelayMs :: int
  maxDelayMs :: int
  backoffMultiplier :: int

record config =
  statusMapping :: "status_rule list"
  formulaColumnTypes :: "string list"
  ignoreColumnTypes :: "string list"
  rateLimit :: rate_limit

definition default_statusMapping :: "status_rule list" where
  "default_statusMapping =
     [\<lparr>label = ''Done'', index = 1, color = ''green'',
        condition = (\<lambda>v. js_greater v (Fin 100))\<rparr>,
      \<lparr>label = ''Working on it'', index = 2, color = ''yellow'',
        condition = (\<lambda>v. js_greater_eq v (Fin 50) \<and> js_less_eq v (Fin 100))\<rparr>,
      \<lparr>label = ''Stuck'', index = 3, color = ''red'',
        condition = (\<lambda>v. js_less v (Fin 50))\<rparr>]"

definition default_rateLimit :: rate_limit where
  "default_rateLimit =
     \<lparr>maxRetries = 3, initialDelayMs = 1000, maxDelayMs = 10000, backoffMultiplier = 2\<rparr>"

definition default_config :: config where
  "default_config =
     \<lparr>statusMapping = default_statusMapping,
      formulaColumnTypes = [''formula''],
      ignoreColumnTypes = [''status''],
      rateLimit = default_rateLimit\<rparr>"

section \<open>Value mapper: \<open>mapValueToStatus\<close>\<close>

text \<open>
  The parameter of \<open>mapValueToStatus\<close> is declared a number, and its caller passes the
  number that \<open>parseFormulaValue\<close> returned. The function itself also guards against
  \<open>null\<close> and \<open>undefined\<close>; these three kinds of argument are the arguments of the model.
\<close>

datatype number_arg = ArgNull | ArgUndefined | ArgNumber jsnum

definition project :: "status_rule \<Rightarrow> resolved_status" where
  "project r = \<lparr>label = label r, index = index r, color = color r\<rparr>"

text \<open>The \<open>for ... of\<close> loop over the rules, returning at the first condition that holds.\<close>

fun match_rules :: "status_rule list \<Rightarrow> jsnum \<Rightarrow> resolved_status option" where
  "match_rules [] v = None"
| "match_rules (r # rs) v = (if condition r v then Some (project r) else match_rules rs v)"

fun mapValueToStatus :: "config \<Rightarrow> number_arg \<Rightarrow> resolved_status option" where
  "mapValueToStatus cfg ArgNull = None"
| "mapValueToStatus cfg ArgUndefined = None"
| "mapValueToStatus cfg (ArgNumber v) =
     (if isNaN v then None else match_rules (statusMapping cfg) v)"

section \<open>Event filter and payload normalizer\<close>

record event_data =
  boardId :: jsval
  itemId :: jsval
  columnId :: jsval
  columnType :: jsval
  value' :: jsval
  previousValue :: jsval
  userId :: jsval

text \<open>
  \<open>Array.prototype.includes\<close> on a list of strings: a value is found only when it is a
  string equal to an element.
\<close>

definition array_includes :: "string list \<Rightarrow> jsval \<Rightarrow> bool" where
  "array_includes xs v = (case v of JStr s \<Rightarrow> s \<in> set xs | _ \<Rightarrow> False)"

definition shouldProcessEvent :: "config \<Rightarrow> event_data \<Rightarrow> bool" where
  "shouldProcessEvent cfg event =
     (if truthy (columnType event) \<and> array_includes (ignoreColumnTypes cfg) (columnType event)
      then False
      else if truthy (columnType event) \<and> \<not> array_includes (formulaColumnTypes cfg) (columnType event)
      then False
      else True)"

fun typeof :: "jsval \<Rightarrow> string" where
  "typeof JUndefined = ''undefined''"
| "typeof JNull = ''object''"
| "typeof (JBool b) = ''boolean''"
| "typeof (JNum n) = ''number''"
| "typeof (JStr s) = ''string''"
| "typeof (JArr xs) = ''object''"
| "typeof (JObj kvs) = ''object''"

text \<open>
  The loop of \<open>validateWebhookPayload\<close> over the required fields. A property read that
  throws is the result \<open>None\<close>.
\<close>

fun check_required :: "jsval \<Rightarrow> string list \<Rightarrow> bool option" where
  "check_required payload [] = Some True"
| "check_required payload (field # rest) =
     (case get_prop payload field of
        None \<Rightarrow> None
      | Some v \<Rightarrow> if \<not> truthy v then Some False else check_required payload rest)"

definition validateWebhookPayload :: "jsval \<Rightarrow> bool option" where
  "validateWebhookPayload payload =
     (if \<not> truthy payload \<or> typeof payload \<noteq> ''object'' then Some False
      else check_required payload [''event''])"

text \<open>
  \<open>extractEventData\<close>: the body of the \<open>try\<close> block runs in the option monad, where a
  property read that throws ends it; the \<open>catch\<close> block returns \<open>null\<close>, the result
  \<open>None\<close>.
\<close>

definition extractEventData :: "jsval \<Rightarrow> event_data option" where
  "extractEventData payload =
     do {
       event \<leftarrow> get_prop payload ''event'';
       eventBoardId \<leftarrow> get_prop event ''boardId'';
       boardId \<leftarrow> (if truthy eventBoardId then Some eventBoardId
                   else get_prop payload ''boardId'');
       pulseId \<leftarrow> get_prop event ''pulseId'';
       itemId \<leftarrow> (if truthy pulseId then Some pulseId else get_prop event ''itemId'');
       columnId \<leftarrow> get_prop event ''columnId'';
       columnType \<leftarrow> get_prop event ''columnType'';
       val \<leftarrow> get_prop event ''value'';
       previousValue \<leftarrow> get_prop event ''previousValue'';
       userId \<leftarrow> get_prop event ''userId'';
       Some \<lparr>boardId = boardId, itemId = itemId, columnId = columnId,
             columnType = columnType, value' = val, previousValue = previousValue,
             userId = userId\<rparr>
     }"

section \<open>Retry policy: \<open>calculateBackoffDelay\<close>\<close>

definition calculateBackoffDelay :: "config \<Rightarrow> nat \<Rightarrow> int" where
  "calculateBackoffDelay cfg attempt =
     (let delay = initialDelayMs (rateLimit cfg) * backoffMultiplier (rateLimit cfg) ^ attempt
      in min delay (maxDelayMs (rateLimit cfg)))"

section \<open>Remote update client\<close>

text \<open>
  The world outside the program. \<open>fetch\<close> either rejects (a network failure) or resolves
  to a response with an HTTP status; \<open>response.json()\<close> is the parsed body, or rejects
  when the body is not JSON, which is \<open>None\<close>. The server is the sequence of the outcomes
  of the fetches still to come. The three GraphQL documents of the client are named, not
  spelled out.
\<close>

record response =
  status :: nat
  json :: "jsval option"

datatype fetch_result = FetchRejected | Fetched response

type_synonym server = "nat \<Rightarrow> fetch_result"

definition ok :: "response \<Rightarrow> bool" where
  "ok r = (200 \<le> status r \<and> status r \<le> 299)"

datatype query = ChangeColumnValue | ItemsQuery | BoardColumnsQuery

text \<open>
  The errors the program throws: a TypeError of a property read or method call on
  \<open>null\<close> or \<open>undefined\<close>, the rejection of \<open>fetch\<close>, the rejection of
  \<open>response.json()\<close>, and the three errors \<open>executeQuery\<close> constructs with their
  messages: \<open>Rate limit exceeded. Max retries reached.\<close>, \<open>Monday API error:\<close> with the
  serialized \<open>errors\<close> of the body, and \<open>HTTP error! status:\<close> with the status.
\<close>

datatype js_error =
    TypeError
  | FetchError
  | InvalidJson
  | RateLimitExceeded
  | MondayApiError jsval
  | HttpError nat

text \<open>
  What the program does that can be observed, in the order it does it: entering a
  component of the pipeline, sending the HTTP response of the webhook, sending a request
  to the remote API, sleeping.
\<close>

datatype component =
    SignatureVerifier
  | PayloadNormalizer
  | EventFilter
  | ValueMapper
  | RemoteUpdateClient

datatype effect =
    Enter component
  | Respond nat jsval
  | Fetch query jsval
  | Sleep int

text \<open>
  \<open>executeQuery\<close> returns the value it resolves to (\<open>Inr\<close>) or the error it rejects with
  (\<open>Inl\<close>), and its effects. The \<open>catch\<close> block logs and rethrows, so it changes neither.
\<close>

function executeQuery ::
  "config \<Rightarrow> server \<Rightarrow> query \<Rightarrow> jsval \<Rightarrow> nat \<Rightarrow> (js_error + jsval) \<times> effect list" where
  "executeQuery cfg srv q variables retryCount =
     (case srv 0 of
        FetchRejected \<Rightarrow> (Inl FetchError, [Fetch q variables])
      | Fetched resp \<Rightarrow>
          (case json resp of
             None \<Rightarrow> (Inl InvalidJson, [Fetch q variables])
           | Some data \<Rightarrow>
               if status resp = 429 then
                 (if retryCount < maxRetries (rateLimit cfg) then
                    (case executeQuery cfg (\<lambda>i. srv (Suc i)) q variables (retryCount + 1) of
                       (result, effects) \<Rightarrow>
                         (result,
                          Fetch q variables # Sleep (calculateBackoffDelay cfg retryCount) # effects))
                  else (Inl RateLimitExceeded, [Fetch q variables]))
               else
                 (case get_prop data ''errors'' of
                    None \<Rightarrow> (Inl TypeError, [Fetch q variables])
                  | Some errors \<Rightarrow>
                      if truthy errors then (Inl (MondayApiError errors), [Fetch q variables])
                      else if \<not> ok resp then (Inl (HttpError (status resp)), [Fetch q variables])
                      else
                        (case get_prop data ''data'' of
                           None \<Rightarrow> (Inl TypeError, [Fetch q variables])
                         | Some d \<Rightarrow> (Inr d, [Fetch q variables])))))"
  by pat_completeness auto
termination
  by (relation "measure (\<lambda>(cfg, srv, q, variables, retryCount).
                  maxRetries (rateLimit cfg) - retryCount)") auto

declare executeQuery.simps [simp del]

text \<open>
  The process environment and the library functions the program calls: the two
  environment variables it reads (unset is \<open>None\<close>), the HMAC-SHA-256 hex digest of a
  message under a key, \<open>JSON.stringify\<close>, and \<open>toString\<close> on a value that is not a
  string. These are parameters of the model.
\<close>

record env =
  MONDAY_SIGNING_SECRET :: "string option"
  STATUS_COLUMN_ID :: "string option"
  hmac_sha256_hex :: "string \<Rightarrow> string \<Rightarrow> string"
  json_stringify :: "jsval \<Rightarrow> string"
  to_string :: "jsval \<Rightarrow> string"

text \<open>\<open>v.toString()\<close>: a TypeError on \<open>null\<close> and \<open>undefined\<close>.\<close>

fun js_toString :: "env \<Rightarrow> jsval \<Rightarrow> string option" where
  "js_toString e JUndefined = None"
| "js_toString e JNull = None"
| "js_toString e (JStr s) = Some s"
| "js_toString e v = Some (to_string e v)"

definition updateStatusColumn ::
  "env \<Rightarrow> config \<Rightarrow> server \<Rightarrow> jsval \<Rightarrow> jsval \<Rightarrow> string \<Rightarrow> nat
     \<Rightarrow> (js_error + jsval) \<times> effect list" where
  "updateStatusColumn e cfg srv board_id item_id statusColumnId statusIndex =
     (case js_toString e board_id of
        None \<Rightarrow> (Inl TypeError, [])
      | Some boardIdText \<Rightarrow>
          (case js_toString e item_id of
             None \<Rightarrow> (Inl TypeError, [])
           | Some itemIdText \<Rightarrow>
               executeQuery cfg srv ChangeColumnValue
                 (JObj [(''boardId'', JStr boardIdText),
                        (''itemId'', JStr itemIdText),
                        (''columnId'', JStr statusColumnId),
                        (''value'',
                         JStr (json_stringify e
                                 (JObj [(''index'', JNum (Fin (of_nat statusIndex)))])))])
                 0))"

section \<open>Signature verifier\<close>

text \<open>
  A request to the webhook: the \<open>authorization\<close> header (absent is \<open>None\<close>) and the body
  as the JSON middleware has parsed it.
\<close>

record request =
  authorization :: "string option"
  body :: jsval

definition verifyWebhookSignature :: "env \<Rightarrow> request \<Rightarrow> bool" where
  "verifyWebhookSignature e req =
     (case MONDAY_SIGNING_SECRET e of
        None \<Rightarrow> True
      | Some secret \<Rightarrow>
          if secret = [] then True
          else
            (case authorization req of
               None \<Rightarrow> False
             | Some signature \<Rightarrow>
                 if signature = [] then False
                 else signature = hmac_sha256_hex e secret (json_stringify e (body req))))"

section \<open>Webhook endpoint\<close>

text \<open>
  \<open>processWebhookEvent\<close> runs after the handler has returned. Its \<open>catch\<close> block logs the
  error and swallows it, so the result is only the effects.
\<close>

definition processWebhookEvent :: "env \<Rightarrow> config \<Rightarrow> server \<Rightarrow> event_data \<Rightarrow> effect list" where
  "processWebhookEvent e cfg srv eventData =
     Enter ValueMapper #
     (case parseFormulaValue (value' eventData) of
        None \<Rightarrow> []
      | Some numericValue \<Rightarrow>
          Enter ValueMapper #
          (case mapValueToStatus cfg (ArgNumber numericValue) of
             None \<Rightarrow> []
           | Some st \<Rightarrow>
               let statusColumnId =
                     (case STATUS_COLUMN_ID e of
                        None \<Rightarrow> ''status''
                      | Some c \<Rightarrow> if c = [] then ''status'' else c)
               in Enter RemoteUpdateClient #
                  snd (updateStatusColumn e cfg srv (boardId eventData) (itemId eventData)
                         statusColumnId (index st))))"

text \<open>
  The handler of \<open>POST /webhook\<close>. The first component of the result is what the handler
  does before it returns; the second is what the callback given to \<open>setImmediate\<close> does,
  after the handler has returned. An exception inside the \<open>try\<close> block is answered by the
  \<open>catch\<close> block with status 500.
\<close>

definition error_body :: "string \<Rightarrow> jsval" where
  "error_body text = JObj [(''error'', JStr text)]"

definition message_body :: "string \<Rightarrow> jsval" where
  "message_body text = JObj [(''message'', JStr text)]"

definition webhook :: "env \<Rightarrow> config \<Rightarrow> server \<Rightarrow> request \<Rightarrow> effect list \<times> effect list" where
  "webhook e cfg srv req =
     (if \<not> verifyWebhookSignature e req then
        ([Enter SignatureVerifier, Respond 401 (error_body ''Invalid signature'')], [])
      else
        (case validateWebhookPayload (body req) of
           None \<Rightarrow>
             ([Enter SignatureVerifier, Enter PayloadNormalizer,
               Respond 500 (error_body ''Internal server error'')], [])
         | Some valid \<Rightarrow>
             if \<not> valid then
               ([Enter SignatureVerifier, Enter PayloadNormalizer,
                 Respond 400 (error_body ''Invalid payload'')], [])
             else
               (case extractEventData (body req) of
                  None \<Rightarrow>
                    ([Enter SignatureVerifier, Enter PayloadNormalizer, Enter PayloadNormalizer,
                      Respond 400 (error_body ''Invalid event data'')], [])
                | Some eventData \<Rightarrow>
                    if \<not> shouldProcessEvent cfg eventData then
                      ([Enter SignatureVerifier, Enter PayloadNormalizer, Enter PayloadNormalizer,
                        Enter EventFilter, Respond 200 (message_body ''Event ignored'')], [])
                    else
                      ([Enter SignatureVerifier, Enter PayloadNormalizer, Enter PayloadNormalizer,
                        Enter EventFilter, Respond 200 (message_body ''Webhook received'')],
                       processWebhookEvent e cfg srv eventData))))"

text \<open>The whole run of a request, in time order.\<close>

definition trace :: "effect list \<times> effect list \<Rightarrow> effect list" where
  "trace run = fst run @ snd run"

fun is_respond :: "effect \<Rightarrow> bool" where
  "is_respond (Respond code b) = True"
| "is_respond x = False"

fun is_fetch :: "effect \<Rightarrow> bool" where
  "is_fetch (Fetch q v) = True"
| "is_fetch x = False"

text \<open>The responses sent to the caller of the webhook.\<close>

definition responses :: "effect list \<Rightarrow> effect list" where
  "responses effects = filter is_respond effects"

text \<open>What happens before the first response is sent.\<close>

definition before_response :: "effect list \<Rightarrow> effect list" where
  "before_response effects = takeWhile (\<lambda>x. \<not> is_respond x) effects"

text \<open>The effects of the remote update client: requests and sleeps.\<close>

fun is_remote :: "effect \<Rightarrow> bool" where
  "is_remote (Fetch q v) = True"
| "is_remote (Sleep ms) = True"
| "is_remote x = False"

section \<open>Sample configurations, requests and servers\<close>

text \<open>A configuration with a gap: only the first rule of the default mapping.\<close>

definition gap_config :: config where
  "gap_config = default_config\<lparr>statusMapping := [hd default_statusMapping]\<rparr>"

text \<open>
  The event extracted from the payload \<open>{"event": {"columnType": ""}}\<close>: the column type is
  present and is the empty string; no other field is.
\<close>

definition empty_type_event :: event_data where
  "empty_type_event =
     \<lparr>boardId = JUndefined, itemId = JUndefined, columnId = JUndefined,
      columnType = JStr [], value' = JUndefined, previousValue = JUndefined,
      userId = JUndefined\<rparr>"

text \<open>
  A stand-in for the digest, of the length of a SHA-256 hex digest, and stand-ins for the
  two serializations; an environment with the secret \<open>s3cr3t\<close> and one without a secret.
\<close>

definition sample_digest :: "string \<Rightarrow> string \<Rightarrow> string" where
  "sample_digest key message = take 64 (key @ message @ replicate 64 CHR ''0'')"

definition sample_env :: env where
  "sample_env =
     \<lparr>MONDAY_SIGNING_SECRET = Some ''s3cr3t'',
      STATUS_COLUMN_ID = None,
      hmac_sha256_hex = sample_digest,
      json_stringify = (\<lambda>v. ''{}''),
      to_string = (\<lambda>v. ''[object Object]'')\<rparr>"

definition open_env :: env where
  "open_env = sample_env\<lparr>MONDAY_SIGNING_SECRET := None\<rparr>"

text \<open>
  The request of the end-to-end example: a change of a formula column to \<open>85%\<close> on item
  123 of board 456, without a signature header.
\<close>

definition formula_payload :: jsval where
  "formula_payload =
     JObj [(''event'',
            JObj [(''columnType'', JStr ''formula''), (''value'', JStr ''85%''),
                  (''pulseId'', JStr ''123''), (''boardId'', JStr ''456'')])]"

definition formula_request :: request where
  "formula_request = \<lparr>authorization = None, body = formula_payload\<rparr>"

definition formula_event :: event_data where
  "formula_event =
     \<lparr>boardId = JStr ''456'', itemId = JStr ''123'', columnId = JUndefined,
      columnType = JStr ''formula'', value' = JStr ''85%'', previousValue = JUndefined,
      userId = JUndefined\<rparr>"

text \<open>
  Three servers: one that accepts every request, one that answers every request with status
  429 and a JSON body, and one that answers with status 429 and a body that is not JSON.
\<close>

definition ok_server :: server where
  "ok_server = (\<lambda>i. Fetched \<lparr>status = 200, json = Some (JObj [(''data'', JObj [])])\<rparr>)"

definition rate_limited_server :: server where
  "rate_limited_server = (\<lambda>i. Fetched \<lparr>status = 429, json = Some (JObj [])\<rparr>)"





section \<open>The value mapper returns the first matching rule\<close>

lemma match_rules_none:
  "(\<forall>r \<in> set rs. \<not> condition r v) \<Longrightarrow> match_rules rs v = None"
  by (induction rs) auto

lemma match_rules_first:
  "i < length rs \<Longrightarrow> condition (rs ! i) v \<Longrightarrow> (\<forall>j<i. \<not> condition (rs ! j) v)
     \<Longrightarrow> match_rules rs v = Some (project (rs ! i))"
proof (induction rs arbitrary: i)
  case Nil
  then show ?case by simp
next
  case (Cons r rs)
  show ?case
  proof (cases i)
    case 0
    with Cons.prems show ?thesis by simp
  next
    case (Suc k)
    with Cons.prems have "\<not> condition r v" by auto
    moreover have "match_rules rs v = Some (project (rs ! k))"
    proof (rule Cons.IH)
      show "k < length rs" using Cons.prems(1) Suc by simp
      show "condition (rs ! k) v" using Cons.prems(2) Suc by simp
      show "\<forall>j<k. \<not> condition (rs ! j) v"
      proof (intro allI impI)
        fix j assume "j < k"
        then have "Suc j < i" using Suc by simp
        with Cons.prems(3) have "\<not> condition ((r # rs) ! Suc j) v" by blast
        then show "\<not> condition (rs ! j) v" by simp
      qed
    qed
    ultimately show ?thesis using Suc by simp
  qed
qed

lemma default_rules_75:
  "mapValueToStatus default_config (ArgNumber (Fin 75)) =
     Some \<lparr>label = ''Working on it'', index = 2, color = ''yellow''\<rparr>"
  by (simp add: default_config_def default_statusMapping_def isNaN_def project_def
      js_greater_def js_greater_eq_def js_less_eq_def)

lemma default_rules_150:
  "mapValueToStatus default_config (ArgNumber (Fin 150)) =
     Some \<lparr>label = ''Done'', index = 1, color = ''green''\<rparr>"
  by (simp add: default_config_def default_statusMapping_def isNaN_def project_def
      js_greater_def js_greater_eq_def js_less_eq_def)

lemma default_rules_30:
  "mapValueToStatus default_config (ArgNumber (Fin 30)) =
     Some \<lparr>label = ''Stuck'', index = 3, color = ''red''\<rparr>"
  by (simp add: default_config_def default_statusMapping_def isNaN_def project_def
      js_greater_def js_greater_eq_def js_less_eq_def)

text \<open>
  Claim C1. \<open>mapValueToStatus\<close> returns \<open>null\<close> for \<open>null\<close>, \<open>undefined\<close> and \<open>NaN\<close>, and
  for a number that no rule of the configured list matches. For any other number it
  returns label, index and color of the rule at the least position whose condition holds.
  Under the default configuration 75 gives "Working on it" (index 2, yellow), 150 gives
  "Done" (index 1), 30 gives "Stuck" (index 3) and \<open>NaN\<close> gives \<open>null\<close>.
\<close>

theorem C1_mapValueToStatus_first_match:
  "mapValueToStatus cfg ArgNull = None
   \<and> mapValueToStatus cfg ArgUndefined = None
   \<and> mapValueToStatus cfg (ArgNumber NaN) = None
   \<and> (\<forall>v. v \<noteq> NaN \<longrightarrow> (\<forall>r \<in> set (statusMapping cfg). \<not> condition r v)
          \<longrightarrow> mapValueToStatus cfg (ArgNumber v) = None)
   \<and> (\<forall>v i. v \<noteq> NaN \<longrightarrow> i < length (statusMapping cfg)
          \<longrightarrow> condition (statusMapping cfg ! i) v
          \<longrightarrow> (\<forall>j<i. \<not> condition (statusMapping cfg ! j) v)
          \<longrightarrow> mapValueToStatus cfg (ArgNumber v) =
                Some \<lparr>label = label (statusMapping cfg ! i),
                      index = index (statusMapping cfg ! i),
                      color = color (statusMapping cfg ! i)\<rparr>)
   \<and> mapValueToStatus default_config (ArgNumber (Fin 75)) =
       Some \<lparr>label = ''Working on it'', index = 2, color = ''yellow''\<rparr>
   \<and> mapValueToStatus default_config (ArgNumber (Fin 150)) =
       Some \<lparr>label = ''Done'', index = 1, color = ''green''\<rparr>
   \<and> mapValueToStatus default_config (ArgNumber (Fin 30)) =
       Some \<lparr>label = ''Stuck'', index = 3, color = ''red''\<rparr>
   \<and> mapValueToStatus default_config (ArgNumber NaN) = None"
proof -
  have none: "\<forall>v. v \<noteq> NaN \<longrightarrow> (\<forall>r \<in> set (statusMapping cfg). \<not> condition r v)
          \<longrightarrow> mapValueToStatus cfg (ArgNumber v) = None"
    by (simp add: isNaN_def match_rules_none)
  have first: "\<forall>v i. v \<noteq> NaN \<longrightarrow> i < length (statusMapping cfg)
          \<longrightarrow> condition (statusMapping cfg ! i) v
          \<longrightarrow> (\<forall>j<i. \<not> condition (statusMapping cfg ! j) v)
          \<longrightarrow> mapValueToStatus cfg (ArgNumber v) =
                Some \<lparr>label = label (statusMapping cfg ! i),
                      index = index (statusMapping cfg ! i),
                      color = color (statusMapping cfg ! i)\<rparr>"
    using match_rules_first [of _ "statusMapping cfg"]
    by (simp add: isNaN_def project_def)
  show ?thesis
    using none first default_rules_75 default_rules_150 default_rules_30
    by (simp add: isNaN_def)
qed

theorem C1_mapValueToStatus_first_match_witness:
  "Fin 75 \<noteq> NaN
   \<and> (1::nat) < length (statusMapping default_config)
   \<and> condition (statusMapping default_config ! 1) (Fin 75)
   \<and> \<not> condition (statusMapping default_config ! 0) (Fin 75)
   \<and> mapValueToStatus default_config (ArgNumber (Fin 75)) =
       Some \<lparr>label = ''Working on it'', index = 2, color = ''yellow''\<rparr>
   \<and> statusMapping gap_config = [hd default_statusMapping]
   \<and> \<not> condition (hd default_statusMapping) (Fin 75)
   \<and> mapValueToStatus gap_config (ArgNumber (Fin 75)) = None"
  using C1_mapValueToStatus_first_match [of default_config]
    C1_mapValueToStatus_first_match [of gap_config]
  by (simp add: gap_config_def default_config_def default_statusMapping_def
      js_greater_def js_greater_eq_def js_less_eq_def)

section \<open>The backoff delay\<close>

lemma default_delay:
  "calculateBackoffDelay default_config a = min (1000 * 2 ^ a) 10000"
  by (simp add: calculateBackoffDelay_def default_config_def default_rateLimit_def)

lemma default_delay_capped:
  assumes "4 \<le> a"
  shows "calculateBackoffDelay default_config a = 10000"
proof -
  have "(2::int) ^ 4 \<le> 2 ^ a"
    using assms by (intro power_increasing) simp_all
  then have "(10000::int) \<le> 1000 * 2 ^ a" by simp
  then show ?thesis by (simp add: default_delay)
qed

text \<open>
  Claim C4. For every attempt number the delay is the minimum of the initial delay times
  the multiplier to the power of the attempt, and the maximal delay. Under the configured
  policy (1000, 2, 10000) the attempts 0, 1, 2, 3 give 1000, 2000, 4000 and 8000
  milliseconds, and every attempt from 4 on gives the cap 10000.
\<close>

theorem C4_calculateBackoffDelay:
  "(\<forall>a. calculateBackoffDelay cfg a =
          min (initialDelayMs (rateLimit cfg) * backoffMultiplier (rateLimit cfg) ^ a)
              (maxDelayMs (rateLimit cfg)))
   \<and> initialDelayMs (rateLimit default_config) = 1000
   \<and> backoffMultiplier (rateLimit default_config) = 2
   \<and> maxDelayMs (rateLimit default_config) = 10000
   \<and> calculateBackoffDelay default_config 0 = 1000
   \<and> calculateBackoffDelay default_config 1 = 2000
   \<and> calculateBackoffDelay default_config 2 = 4000
   \<and> calculateBackoffDelay default_config 3 = 8000
   \<and> (\<forall>a\<ge>4. calculateBackoffDelay default_config a = 10000)"
proof -
  have general: "\<forall>a. calculateBackoffDelay cfg a =
          min (initialDelayMs (rateLimit cfg) * backoffMultiplier (rateLimit cfg) ^ a)
              (maxDelayMs (rateLimit cfg))"
    by (simp add: calculateBackoffDelay_def)
  have policy: "initialDelayMs (rateLimit default_config) = 1000
     \<and> backoffMultiplier (rateLimit default_config) = 2
     \<and> maxDelayMs (rateLimit default_config) = 10000"
    by (simp add: default_config_def default_rateLimit_def)
  have first: "calculateBackoffDelay default_config 0 = 1000
     \<and> calculateBackoffDelay default_config 1 = 2000
     \<and> calculateBackoffDelay default_config 2 = 4000
     \<and> calculateBackoffDelay default_config 3 = 8000"
    by (simp add: default_delay)
  have cap: "\<forall>a\<ge>4. calculateBackoffDelay default_config a = 10000"
    using default_delay_capped by blast
  from general policy first cap show ?thesis by blast
qed

theorem C4_calculateBackoffDelay_witness:
  "(4::nat) \<le> 7 \<and> calculateBackoffDelay default_config 7 = 10000
   \<and> calculateBackoffDelay default_config 7 = min (1000 * 2 ^ 7) 10000"
  using C4_calculateBackoffDelay [of default_config]
  by (simp add: default_config_def default_rateLimit_def)

section \<open>The event filter\<close>

text \<open>
  Claim C5, as stated: whenever \<open>columnType\<close> is present and not a member of the allow-list,
  \<open>shouldProcessEvent\<close> returns false. It fails for an event whose \<open>columnType\<close> is the
  empty string: the field is present and is not in the allow-list, yet the event passes,
  because the guard of both tests is the truthiness of the field.
\<close>

theorem C5_shouldProcessEvent_counterexample:
  "validateWebhookPayload (JObj [(''event'', JObj [(''columnType'', JStr [])])]) = Some True
   \<and> extractEventData (JObj [(''event'', JObj [(''columnType'', JStr [])])])
       = Some empty_type_event
   \<and> columnType empty_type_event = JStr []
   \<and> columnType empty_type_event \<noteq> JUndefined
   \<and> \<not> array_includes (formulaColumnTypes default_config) (columnType empty_type_event)
   \<and> shouldProcessEvent default_config empty_type_event = True"
  by (simp add: empty_type_event_def shouldProcessEvent_def array_includes_def
      default_config_def validateWebhookPayload_def extractEventData_def)

text \<open>
  Claim C5, amended. \<open>shouldProcessEvent\<close> returns false when \<open>columnType\<close> is truthy and
  in the ignore-set, and when it is truthy and not in the allow-list; in every other case,
  in particular when \<open>columnType\<close> is absent or falsy, it returns true. Under the default
  configuration the type "status" gives false, "formula" gives true and an absent type
  gives true.
\<close>

theorem C5_shouldProcessEvent:
  "(truthy (columnType ev) \<and> array_includes (ignoreColumnTypes cfg) (columnType ev)
      \<longrightarrow> shouldProcessEvent cfg ev = False)
   \<and> (truthy (columnType ev) \<and> \<not> array_includes (formulaColumnTypes cfg) (columnType ev)
      \<longrightarrow> shouldProcessEvent cfg ev = False)
   \<and> (\<not> (truthy (columnType ev) \<and> array_includes (ignoreColumnTypes cfg) (columnType ev))
      \<and> \<not> (truthy (columnType ev) \<and> \<not> array_includes (formulaColumnTypes cfg) (columnType ev))
      \<longrightarrow> shouldProcessEvent cfg ev = True)
   \<and> (\<not> truthy (columnType ev) \<longrightarrow> shouldProcessEvent cfg ev = True)
   \<and> ignoreColumnTypes default_config = [''status'']
   \<and> formulaColumnTypes default_config = [''formula'']
   \<and> (columnType ev = JStr ''status'' \<longrightarrow> shouldProcessEvent default_config ev = False)
   \<and> (columnType ev = JStr ''formula'' \<longrightarrow> shouldProcessEvent default_config ev = True)
   \<and> (columnType ev = JUndefined \<longrightarrow> shouldProcessEvent default_config ev = True)"
  by (simp add: shouldProcessEvent_def array_includes_def default_config_def)

theorem C5_shouldProcessEvent_witness:
  "columnType (empty_type_event\<lparr>columnType := JStr ''status''\<rparr>) = JStr ''status''
   \<and> shouldProcessEvent default_config (empty_type_event\<lparr>columnType := JStr ''status''\<rparr>) = False
   \<and> truthy (JStr ''text'')
   \<and> \<not> array_includes (formulaColumnTypes default_config) (JStr ''text'')
   \<and> shouldProcessEvent default_config (empty_type_event\<lparr>columnType := JStr ''text''\<rparr>) = False
   \<and> shouldProcessEvent default_config (empty_type_event\<lparr>columnType := JStr ''formula''\<rparr>) = True
   \<and> shouldProcessEvent default_config (empty_type_event\<lparr>columnType := JUndefined\<rparr>) = True"
  using C5_shouldProcessEvent [of "empty_type_event\<lparr>columnType := JStr ''status''\<rparr>" default_config]
    C5_shouldProcessEvent [of "empty_type_event\<lparr>columnType := JStr ''text''\<rparr>" default_config]
    C5_shouldProcessEvent [of "empty_type_event\<lparr>columnType := JStr ''formula''\<rparr>" default_config]
    C5_shouldProcessEvent [of "empty_type_event\<lparr>columnType := JUndefined\<rparr>" default_config]
  by (simp add: array_includes_def default_config_def)

section \<open>Parsing a formula value\<close>


















section \<open>The signature verifier\<close>

text \<open>
  Claim C7. Without a configured secret every request is accepted. With a secret, whose
  digest of the serialized body is not empty (a SHA-256 hex digest has 64 characters), a
  request is accepted exactly when the signature header is present and equal to that
  digest; a missing header is rejected. The result is a boolean in every case.
\<close>

theorem C7_verifyWebhookSignature:
  "(MONDAY_SIGNING_SECRET e = None \<longrightarrow> verifyWebhookSignature e req = True)
   \<and> (MONDAY_SIGNING_SECRET e = Some [] \<longrightarrow> verifyWebhookSignature e req = True)
   \<and> (\<forall>secret. MONDAY_SIGNING_SECRET e = Some secret \<longrightarrow> secret \<noteq> []
          \<longrightarrow> hmac_sha256_hex e secret (json_stringify e (body req)) \<noteq> []
          \<longrightarrow> (verifyWebhookSignature e req = True
                 \<longleftrightarrow> authorization req
                       = Some (hmac_sha256_hex e secret (json_stringify e (body req))))
              \<and> (authorization req = None \<longrightarrow> verifyWebhookSignature e req = False))"
  by (auto simp add: verifyWebhookSignature_def split: option.splits)

theorem C7_verifyWebhookSignature_witness:
  "MONDAY_SIGNING_SECRET sample_env = Some ''s3cr3t''
   \<and> length (hmac_sha256_hex sample_env ''s3cr3t''
                (json_stringify sample_env formula_payload)) = 64
   \<and> verifyWebhookSignature sample_env
        \<lparr>authorization = Some (sample_digest ''s3cr3t'' ''{}''), body = formula_payload\<rparr> = True
   \<and> verifyWebhookSignature sample_env
        \<lparr>authorization = Some ''0123'', body = formula_payload\<rparr> = False
   \<and> verifyWebhookSignature sample_env
        \<lparr>authorization = None, body = formula_payload\<rparr> = False
   \<and> MONDAY_SIGNING_SECRET open_env = None
   \<and> verifyWebhookSignature open_env formula_request = True"
proof -
  have d: "sample_digest ''s3cr3t'' ''{}'' \<noteq> ''0123''"
    by (simp add: sample_digest_def)
  have l: "length (sample_digest ''s3cr3t'' ''{}'') = 64"
    by (simp add: sample_digest_def)
  then have n: "sample_digest ''s3cr3t'' ''{}'' \<noteq> []" by auto
  show ?thesis
    using d l n
      C7_verifyWebhookSignature [of sample_env
        "\<lparr>authorization = Some (sample_digest ''s3cr3t'' ''{}''), body = formula_payload\<rparr>"]
      C7_verifyWebhookSignature [of sample_env
        "\<lparr>authorization = Some ''0123'', body = formula_payload\<rparr>"]
      C7_verifyWebhookSignature [of sample_env
        "\<lparr>authorization = None, body = formula_payload\<rparr>"]
      C7_verifyWebhookSignature [of open_env formula_request]
    by (simp add: sample_env_def open_env_def)
qed

section \<open>The shape of a run of the webhook endpoint\<close>

lemma get_prop_defined:
  "v \<noteq> JUndefined \<Longrightarrow> v \<noteq> JNull \<Longrightarrow> \<exists>x. get_prop v k = Some x"
  by (cases v) (auto split: option.splits)

lemma truthy_defined: "truthy v \<Longrightarrow> v \<noteq> JUndefined \<and> v \<noteq> JNull"
  by (cases v) auto

lemma validate_never_throws: "validateWebhookPayload payload \<noteq> None"
  by (cases payload) (auto simp add: validateWebhookPayload_def split: option.splits)

lemma validate_true_iff:
  "validateWebhookPayload payload = Some True
     \<longleftrightarrow> (\<exists>kvs ev. payload = JObj kvs \<and> map_of kvs ''event'' = Some ev \<and> truthy ev)"
  by (cases payload) (auto simp add: validateWebhookPayload_def split: option.splits)

lemma extract_defined:
  assumes "payload = JObj kvs" and "map_of kvs ''event'' = Some ev" and "truthy ev"
  shows "\<exists>d. extractEventData payload = Some d"
proof -
  have ev: "ev \<noteq> JUndefined \<and> ev \<noteq> JNull" using assms(3) by (rule truthy_defined)
  have e: "get_prop payload ''event'' = Some ev" using assms by simp
  obtain pb where pb: "get_prop payload ''boardId'' = Some pb"
    using assms(1) get_prop_defined [of payload] by auto
  obtain eb where eb: "get_prop ev ''boardId'' = Some eb"
    using ev get_prop_defined by blast
  obtain pu where pu: "get_prop ev ''pulseId'' = Some pu"
    using ev get_prop_defined by blast
  obtain it where it: "get_prop ev ''itemId'' = Some it"
    using ev get_prop_defined by blast
  obtain ci where ci: "get_prop ev ''columnId'' = Some ci"
    using ev get_prop_defined by blast
  obtain ct where ct: "get_prop ev ''columnType'' = Some ct"
    using ev get_prop_defined by blast
  obtain va where va: "get_prop ev ''value'' = Some va"
    using ev get_prop_defined by blast
  obtain pv where pv: "get_prop ev ''previousValue'' = Some pv"
    using ev get_prop_defined by blast
  obtain us where us: "get_prop ev ''userId'' = Some us"
    using ev get_prop_defined by blast
  show ?thesis
    unfolding extractEventData_def
    by (simp add: e pb eb pu it ci ct va pv us)
qed

lemma validated_extracts:
  "validateWebhookPayload payload = Some True \<Longrightarrow> \<exists>d. extractEventData payload = Some d"
  using extract_defined validate_true_iff by blast

lemma executeQuery_effects:
  "list_all is_remote (snd (executeQuery cfg srv q variables retryCount))"
proof (induction cfg srv q variables retryCount rule: executeQuery.induct)
  case (1 cfg srv q variables retryCount)
  show ?case
    using "1.IH"
    by (subst executeQuery.simps)
       (auto split: fetch_result.splits option.splits prod.splits)
qed

lemma updateStatusColumn_effects:
  "list_all is_remote (snd (updateStatusColumn e cfg srv b i c n))"
  by (simp add: updateStatusColumn_def executeQuery_effects split: option.splits)

lemma remote_not_respond: "list_all is_remote xs \<Longrightarrow> x \<in> set xs \<Longrightarrow> \<not> is_respond x"
  by (cases x) (auto simp add: list_all_iff)


lemma process_no_respond:
  "x \<in> set (processWebhookEvent e cfg srv d) \<Longrightarrow> \<not> is_respond x"
  using remote_not_respond [OF updateStatusColumn_effects]
  by (auto simp add: processWebhookEvent_def Let_def split: option.splits)


lemma responses_process: "responses (processWebhookEvent e cfg srv d) = []"
  unfolding responses_def using process_no_respond
  by (simp add: filter_empty_conv)


lemma formula_payload_valid: "validateWebhookPayload formula_payload = Some True"
  by (simp add: formula_payload_def validateWebhookPayload_def)

lemma formula_payload_extracted: "extractEventData formula_payload = Some formula_event"
  by (simp add: formula_payload_def formula_event_def extractEventData_def)

lemma formula_event_passes: "shouldProcessEvent default_config formula_event = True"
  by (simp add: formula_event_def shouldProcessEvent_def array_includes_def default_config_def)

lemma open_env_verifies: "verifyWebhookSignature open_env req = True"
  by (simp add: verifyWebhookSignature_def open_env_def sample_env_def)



lemma webhook_responses:
  "responses (trace (webhook e cfg srv req)) =
     [if \<not> verifyWebhookSignature e req then Respond 401 (error_body ''Invalid signature'')
      else if validateWebhookPayload (body req) \<noteq> Some True
      then Respond 400 (error_body ''Invalid payload'')
      else (case extractEventData (body req) of
              None \<Rightarrow> Respond 400 (error_body ''Invalid event data'')
            | Some ev \<Rightarrow>
                if \<not> shouldProcessEvent cfg ev
                then Respond 200 (message_body ''Event ignored'')
                else Respond 200 (message_body ''Webhook received''))]"
  using validate_never_throws [of "body req"]
  by (auto simp add: webhook_def trace_def responses_def
      responses_process [unfolded responses_def] split: option.splits)

lemma webhook_before_response:
  "before_response (trace (webhook e cfg srv req)) =
     (if \<not> verifyWebhookSignature e req then [Enter SignatureVerifier]
      else if validateWebhookPayload (body req) \<noteq> Some True
      then [Enter SignatureVerifier, Enter PayloadNormalizer]
      else (case extractEventData (body req) of
              None \<Rightarrow> [Enter SignatureVerifier, Enter PayloadNormalizer, Enter PayloadNormalizer]
            | Some ev \<Rightarrow>
                [Enter SignatureVerifier, Enter PayloadNormalizer, Enter PayloadNormalizer,
                 Enter EventFilter]))"
  using validate_never_throws [of "body req"]
  by (auto simp add: webhook_def trace_def before_response_def split: option.splits)

lemma webhook_deferred:
  "snd (webhook e cfg srv req) =
     (if verifyWebhookSignature e req \<and> validateWebhookPayload (body req) = Some True
      then (case extractEventData (body req) of
              None \<Rightarrow> []
            | Some ev \<Rightarrow>
                if shouldProcessEvent cfg ev then processWebhookEvent e cfg srv ev else [])
      else [])"
  by (auto simp add: webhook_def split: option.splits)

lemma webhook_trace_split:
  "trace (webhook e cfg srv req) =
     before_response (trace (webhook e cfg srv req))
     @ responses (trace (webhook e cfg srv req))
     @ snd (webhook e cfg srv req)"
  unfolding webhook_responses webhook_before_response
  using validate_never_throws [of "body req"]
  by (auto simp add: webhook_def trace_def split: option.splits)

section \<open>The responses of the webhook endpoint and the order of its steps\<close>

text \<open>
  Claim C10. A payload passes \<open>validateWebhookPayload\<close> exactly when it is an object whose
  \<open>event\<close> property is truthy. For such a payload \<open>extractEventData\<close> returns a record, not
  \<open>null\<close>, and no exception leaves it. So no run of the webhook endpoint answers with
  status 400 and "Invalid event data".
\<close>

theorem C10_extractEventData_after_validation:
  "(validateWebhookPayload payload = Some True
      \<longleftrightarrow> (\<exists>kvs ev. payload = JObj kvs \<and> map_of kvs ''event'' = Some ev \<and> truthy ev))
   \<and> (validateWebhookPayload payload = Some True \<longrightarrow> (\<exists>d. extractEventData payload = Some d))
   \<and> Respond 400 (error_body ''Invalid event data'') \<notin> set (trace (webhook e cfg srv req))"
proof -
  have "Respond 400 (error_body ''Invalid event data'')
          \<notin> set (responses (trace (webhook e cfg srv req)))"
    unfolding webhook_responses
    using validated_extracts [of "body req"]
    by (auto simp add: error_body_def message_body_def split: option.splits)
  then have unreachable:
    "Respond 400 (error_body ''Invalid event data'') \<notin> set (trace (webhook e cfg srv req))"
    by (simp add: responses_def)
  from validate_true_iff [of payload] validated_extracts [of payload] unreachable
  show ?thesis by blast
qed

theorem C10_extractEventData_after_validation_witness:
  "validateWebhookPayload formula_payload = Some True
   \<and> extractEventData formula_payload = Some formula_event
   \<and> Respond 400 (error_body ''Invalid event data'')
       \<notin> set (trace (webhook open_env default_config ok_server formula_request))"
  using C10_extractEventData_after_validation
          [of formula_payload open_env default_config ok_server formula_request]
  by (simp add: formula_payload_valid formula_payload_extracted)

text \<open>
  Claim C6. Every run of the webhook endpoint sends exactly one response, decided in this
  order: 401 when the signature is not verified; else 400 "Invalid payload" when the
  payload is not valid; else 400 "Invalid event data" when nothing is extracted; else 200
  "Event ignored" when the filter rejects the event; else 200 "Webhook received". No
  request to the remote API is made before the response, none at all unless the response
  is "Webhook received", and the response is the same whatever the remote server does.
\<close>

theorem C6_webhook_responses:
  "responses (trace (webhook e cfg srv req)) =
     [if \<not> verifyWebhookSignature e req then Respond 401 (error_body ''Invalid signature'')
      else if validateWebhookPayload (body req) \<noteq> Some True
      then Respond 400 (error_body ''Invalid payload'')
      else (case extractEventData (body req) of
              None \<Rightarrow> Respond 400 (error_body ''Invalid event data'')
            | Some ev \<Rightarrow>
                if \<not> shouldProcessEvent cfg ev
                then Respond 200 (message_body ''Event ignored'')
                else Respond 200 (message_body ''Webhook received''))]
   \<and> \<not> list_ex is_fetch (before_response (trace (webhook e cfg srv req)))
   \<and> (responses (trace (webhook e cfg srv req))
         \<noteq> [Respond 200 (message_body ''Webhook received'')]
       \<longrightarrow> \<not> list_ex is_fetch (trace (webhook e cfg srv req)))
   \<and> (\<forall>srv'. responses (trace (webhook e cfg srv' req))
                = responses (trace (webhook e cfg srv req)))"
proof -
  have before: "\<not> list_ex is_fetch (before_response (trace (webhook e cfg srv req)))"
    unfolding webhook_before_response by (simp split: option.splits)
  have early: "responses (trace (webhook e cfg srv req))
         \<noteq> [Respond 200 (message_body ''Webhook received'')]
       \<longrightarrow> \<not> list_ex is_fetch (trace (webhook e cfg srv req))"
  proof
    assume other: "responses (trace (webhook e cfg srv req))
         \<noteq> [Respond 200 (message_body ''Webhook received'')]"
    then have "snd (webhook e cfg srv req) = []"
      unfolding webhook_responses webhook_deferred
      by (auto split: option.splits if_splits)
    moreover have "\<not> list_ex is_fetch (responses (trace (webhook e cfg srv req)))"
      unfolding webhook_responses by (simp split: option.splits)
    ultimately show "\<not> list_ex is_fetch (trace (webhook e cfg srv req))"
      using before webhook_trace_split [of e cfg srv req]
      by (metis append_Nil2 list_ex_append)
  qed
  have same: "\<forall>srv'. responses (trace (webhook e cfg srv' req))
                = responses (trace (webhook e cfg srv req))"
    by (simp only: webhook_responses) simp
  from webhook_responses [of e cfg srv req] before early same show ?thesis by blast
qed


lemma formula_request_body: "body formula_request = formula_payload"
  by (simp add: formula_request_def)

lemma sample_env_rejects_unsigned:
  "verifyWebhookSignature sample_env formula_request = False"
  by (simp add: verifyWebhookSignature_def sample_env_def formula_request_def)

theorem C6_webhook_responses_witness:
  "verifyWebhookSignature sample_env formula_request = False
   \<and> responses (trace (webhook sample_env default_config ok_server formula_request))
       = [Respond 401 (error_body ''Invalid signature'')]
   \<and> \<not> list_ex is_fetch (trace (webhook sample_env default_config ok_server formula_request))
   \<and> responses (trace (webhook open_env default_config rate_limited_server formula_request))
       = [Respond 200 (message_body ''Webhook received'')]
   \<and> responses (trace (webhook open_env default_config ok_server formula_request))
       = [Respond 200 (message_body ''Webhook received'')]"
  using C6_webhook_responses [of sample_env default_config ok_server formula_request]
    C6_webhook_responses [of open_env default_config rate_limited_server formula_request]
    C6_webhook_responses [of open_env default_config ok_server formula_request]
  by (simp add: sample_env_rejects_unsigned open_env_verifies formula_request_body
      formula_payload_valid formula_payload_extracted formula_event_passes
      error_body_def message_body_def)








section \<open>The retry state machine of the remote update client\<close>











end
